theory Spec2Isabelle
  imports Main
begin

section \<open>The Slack notifier of src/main.ts\<close>

text \<open>
  The action is one asynchronous function, \<open>run\<close>, with one helper, \<open>getChannelId\<close>.
  Everything it does is an effect on the outside world: it reads the inputs of the
  workflow step, walks two directories, calls the Slack Web API and reports through
  \<open>core.info\<close>, \<open>core.setFailed\<close> and \<open>core.setOutput\<close>.

  The model makes the outside world a value, \<open>env\<close>, holding what each external call
  answers, and makes \<open>run\<close> a function from that value to the list of effects it
  performs, in the order in which it performs them. A thrown error is the \<open>Inl\<close> of a
  sum and carries the text of its \<open>message\<close> field.
\<close>

subsection \<open>JavaScript values\<close>

text \<open>
  \<open>a || b\<close> on strings: the empty string is falsy. \<open>process.env.X || ''\<close> also
  has to deal with an undefined variable.
\<close>

definition or_else :: "string \<Rightarrow> string \<Rightarrow> string" where
  "or_else a b = (if a = [] then b else a)"

definition env_or_empty :: "string option \<Rightarrow> string" where
  "env_or_empty v = (case v of None \<Rightarrow> [] | Some s \<Rightarrow> or_else s [])"

text \<open>
  \<open>String.prototype.toLowerCase\<close>. Only its effect on the letters A to Z is modelled;
  every other character is left as it is. For the comparison with \<open>start\<close>,
  \<open>upload\<close> and \<open>finish\<close> that run makes, nothing more is needed: no character
  outside A to Z is lowered to one of the letters of these three words.
\<close>

definition toLowerChar :: "char \<Rightarrow> char" where
  "toLowerChar c =
     (case map_of (zip ''ABCDEFGHIJKLMNOPQRSTUVWXYZ'' ''abcdefghijklmnopqrstuvwxyz'') c of
        Some l \<Rightarrow> l
      | None \<Rightarrow> c)"

definition toLowerCase :: "string \<Rightarrow> string" where
  "toLowerCase s = map toLowerChar s"

text \<open>A number inside a template string, \<open>`${videos.length}`\<close>: its decimal digits.\<close>

fun string_of_nat :: "nat \<Rightarrow> string" where
  "string_of_nat n =
     (if n < 10 then [''0123456789'' ! n]
      else string_of_nat (n div 10) @ [''0123456789'' ! (n mod 10)])"

declare string_of_nat.simps [simp del]

text \<open>
  \<open>core.getInput('status') || false\<close> is a string or the boolean false; in a template
  string the boolean prints as \<open>false\<close>.
\<close>

datatype string_or_false = Str string | JsFalse

definition or_false :: "string \<Rightarrow> string_or_false" where
  "or_false a = (if a = [] then JsFalse else Str a)"

fun template :: "string_or_false \<Rightarrow> string" where
  "template (Str s) = s"
| "template JsFalse = ''false''"

subsection \<open>The Slack Web API, as far as run uses it\<close>

text \<open>
  Arguments. A field that a call does not pass is \<open>None\<close>; the field \<open>text\<close> of a
  message is \<open>msg_text\<close> here.
\<close>

datatype text_object = PlainText string bool | Mrkdwn string

datatype block = Header text_object | Section "text_object list"

record attachment =
  color :: string
  blocks :: "block list"

record message =
  channel :: string
  link_names :: bool
  ts :: "string option"
  thread_ts :: "string option"
  msg_text :: "string option"
  mrkdwn :: "bool option"
  attachments :: "attachment list option"

text \<open>
  \<open>file_path\<close> is the field \<open>file\<close>: the path given to \<open>createReadStream\<close>,
  whose stream the client opens while it uploads.
\<close>

record upload =
  filename :: string
  file_path :: string
  upload_thread_ts :: string
  channels :: string

datatype call =
    ConversationsList
  | ChatPostMessage message
  | ChatUpdate message
  | FilesUpload upload

text \<open>Answers. Every field of a response is optional in the client's types.\<close>

record Channel =
  channel_id :: "string option"
  channel_name :: "string option"

record ConversationsListResponse =
  list_channels :: "Channel list option"

record ChatPostMessageResponse =
  response_ts :: "string option"

text \<open>
  The client that \<open>new WebClient(token)\<close> gives: what the service answers to each
  call, \<open>Inl\<close> the message of the error the call rejects with.

  The uploads of one group are issued together and awaited with \<open>Promise.all\<close>, which
  rejects with the reason of the promise that rejects first. Which one that is lies
  with the service, so a rejected upload carries the instant at which its rejection
  arrives.
\<close>

record WebClient =
  conversations_list :: "string + ConversationsListResponse"
  chat_postMessage :: "message \<Rightarrow> string + ChatPostMessageResponse"
  chat_update :: "message \<Rightarrow> string + unit"
  files_upload :: "upload \<Rightarrow> (nat \<times> string) + unit"

subsection \<open>The outside world and the effects of a run\<close>

text \<open>
  \<open>getInput\<close> is \<open>core.getInput\<close> (the empty string for an input that is not set),
  \<open>process_env\<close> is \<open>process.env\<close>, \<open>walkSync\<close> is the directory walk of the
  walk-sync package, given the root and the globs (it is not part of this repository:
  what it lists, and whether it throws, is left to the environment), and
  \<open>new_WebClient\<close> is the constructor of the Slack client.
\<close>

record env =
  getInput :: "string \<Rightarrow> string"
  process_env :: "string \<Rightarrow> string option"
  walkSync :: "string \<Rightarrow> string list \<Rightarrow> string + string list"
  new_WebClient :: "string \<Rightarrow> WebClient"

datatype event =
    Info string
  | SetFailed string
  | SetOutput string "string option"
  | Remote call

text \<open>What an observer of a finished run looks at.\<close>

fun remote_calls :: "event list \<Rightarrow> call list" where
  "remote_calls [] = []"
| "remote_calls (Remote c # es) = c # remote_calls es"
| "remote_calls (_ # es) = remote_calls es"

fun failed :: "event list \<Rightarrow> string list" where
  "failed [] = []"
| "failed (SetFailed m # es) = m # failed es"
| "failed (_ # es) = failed es"

fun outputs :: "event list \<Rightarrow> (string \<times> string option) list" where
  "outputs [] = []"
| "outputs (SetOutput k v # es) = (k, v) # outputs es"
| "outputs (_ # es) = outputs es"

subsection \<open>getChannelId (main.ts, lines 6 to 23)\<close>

text \<open>
  Returns the identifier (\<open>None\<close> for \<open>undefined\<close>) and the effects. The listing
  call is issued in every case; \<open>result.channels?.find\<close> is \<open>undefined\<close> when the
  response has no list of channels.
\<close>

definition getChannelId :: "string \<Rightarrow> WebClient \<Rightarrow> string option \<times> event list" where
  "getChannelId channelName slackInstance =
     (case conversations_list slackInstance of
        Inl error \<Rightarrow>
          (None, [Remote ConversationsList,
                  SetFailed (''Failed to fetch channel ID: '' @ error)])
      | Inr result \<Rightarrow>
          (case Option.bind (list_channels result)
                  (find (\<lambda>c. channel_name c = Some channelName)) of
             Some c \<Rightarrow> (channel_id c, [Remote ConversationsList])
           | None \<Rightarrow>
               (None, [Remote ConversationsList,
                       SetFailed (''Channel '' @ [CHR 0x27] @ channelName @ [CHR 0x27]
                                  @ '' not found.'')])))"

subsection \<open>Promise.all over the uploads of one group\<close>

text \<open>
  \<open>earliest\<close> picks, among the rejections of a group, the one that arrives first
  (of two arriving at the same instant, the one issued first). \<open>Promise_all\<close> is
  \<open>None\<close> when every promise is fulfilled and the message of the earliest rejection
  otherwise.
\<close>

fun rejections :: "((nat \<times> string) + unit) list \<Rightarrow> (nat \<times> string) list" where
  "rejections [] = []"
| "rejections (Inl r # ps) = r # rejections ps"
| "rejections (Inr _ # ps) = rejections ps"

fun earliest :: "(nat \<times> string) list \<Rightarrow> (nat \<times> string) option" where
  "earliest [] = None"
| "earliest (r # rs) =
     (case earliest rs of
        None \<Rightarrow> Some r
      | Some r' \<Rightarrow> if fst r \<le> fst r' then Some r else Some r')"

definition Promise_all :: "((nat \<times> string) + unit) list \<Rightarrow> string option" where
  "Promise_all ps = map_option snd (earliest (rejections ps))"

text \<open>
  Lines 178 to 189 and 197 to 208: \<open>Promise.all(files.map(async f => ...))\<close>. Each
  callback runs up to its \<open>await\<close> as soon as \<open>map\<close> calls it, so the uploads are all
  issued, in the order of the list, before any of them is awaited.
\<close>

definition upload_of :: "string \<Rightarrow> string \<Rightarrow> string \<Rightarrow> string \<Rightarrow> upload" where
  "upload_of dir previousMsgThreadId channelID f =
     \<lparr>filename = f, file_path = dir @ ''/'' @ f,
      upload_thread_ts = previousMsgThreadId, channels = channelID\<rparr>"

definition upload_all ::
  "WebClient \<Rightarrow> string \<Rightarrow> string \<Rightarrow> string \<Rightarrow> string list \<Rightarrow> event list \<times> string option" where
  "upload_all slack dir previousMsgThreadId channelID files =
     (concat (map (\<lambda>f. [Info (''Uploading '' @ f),
                          Remote (FilesUpload (upload_of dir previousMsgThreadId channelID f))])
                  files),
      Promise_all (map (\<lambda>f. files_upload slack (upload_of dir previousMsgThreadId channelID f))
                       files))"

subsection \<open>The three branches of run\<close>

definition run_url :: "string \<Rightarrow> string \<Rightarrow> string \<Rightarrow> string" where
  "run_url githubServerUrl githubRepository githubRunID =
     ''*Run URL:* <'' @ githubServerUrl @ ''/'' @ githubRepository @ ''/actions/runs/''
       @ githubRunID @ ''|Click!>''"

text \<open>Lines 70 to 109.\<close>

definition start_message :: "string \<Rightarrow> string \<Rightarrow> string \<Rightarrow> string \<Rightarrow> message" where
  "start_message channelID messageText url author =
     \<lparr>channel = channelID, link_names = True, ts = None, thread_ts = None,
      msg_text = None, mrkdwn = None,
      attachments = Some
        [\<lparr>color = ''#f2c744'',
          blocks =
            [Header (PlainText ('':rocket: '' @ messageText) True),
             Section [Mrkdwn url, Mrkdwn ''*Status:* In progress'',
                      Mrkdwn (''*Author:* @'' @ author)]]\<rparr>]\<rparr>"

definition start_mode :: "WebClient \<Rightarrow> message \<Rightarrow> event list" where
  "start_mode slack m =
     Remote (ChatPostMessage m) #
     (case chat_postMessage slack m of
        Inl error \<Rightarrow> [SetFailed error]
      | Inr result \<Rightarrow> [SetOutput ''thread-id'' (response_ts result)])"

text \<open>Lines 110 to 152.\<close>

definition finish_message ::
  "string \<Rightarrow> string \<Rightarrow> string \<Rightarrow> string \<Rightarrow> string \<Rightarrow> string_or_false \<Rightarrow> message" where
  "finish_message channelID previousMsgThreadId messageText url author runStatus =
     (let statusColor = (if runStatus = Str ''success'' then ''#64f244'' else ''#e30d0d'');
          statusIcon = (if runStatus = Str ''success'' then '':ok_hand:'' else '':poop:'')
      in \<lparr>channel = channelID, link_names = True, ts = Some previousMsgThreadId,
          thread_ts = None, msg_text = None, mrkdwn = None,
          attachments = Some
            [\<lparr>color = statusColor,
              blocks =
                [Header (PlainText (statusIcon @ '' '' @ messageText) True),
                 Section [Mrkdwn url, Mrkdwn (''*Status:* '' @ template runStatus),
                          Mrkdwn (''*Author:* @'' @ author)]]\<rparr>]\<rparr>)"

definition finish_mode :: "WebClient \<Rightarrow> message \<Rightarrow> event list" where
  "finish_mode slack m =
     Remote (ChatUpdate m) #
     (case chat_update slack m of
        Inl error \<Rightarrow> [SetFailed error]
      | Inr _ \<Rightarrow> [])"

text \<open>Lines 154 to 211. The videos are listed first, the screenshots are uploaded first.\<close>

definition pointer_message :: "string \<Rightarrow> string \<Rightarrow> string \<Rightarrow> message" where
  "pointer_message channelID previousMsgThreadId author =
     \<lparr>channel = channelID, link_names = True, ts = None,
      thread_ts = Some previousMsgThreadId,
      msg_text = Some (''@'' @ author @ '' check this out :point_down:''),
      mrkdwn = Some True, attachments = None\<rparr>"

definition upload_videos ::
  "WebClient \<Rightarrow> string \<Rightarrow> string \<Rightarrow> string \<Rightarrow> string list \<Rightarrow> event list" where
  "upload_videos slack videosDir previousMsgThreadId channelID videos =
     (if length videos > 0 then
        Info (''Uploading '' @ string_of_nat (length videos) @ '' videos'') #
        (case upload_all slack videosDir previousMsgThreadId channelID videos of
           (issued, Some error) \<Rightarrow> issued @ [SetFailed error]
         | (issued, None) \<Rightarrow> issued @ [Info ''...done!''])
      else [])"

definition upload_screenshots ::
  "WebClient \<Rightarrow> string \<Rightarrow> string \<Rightarrow> string \<Rightarrow> string \<Rightarrow> string list \<Rightarrow> string list
     \<Rightarrow> event list" where
  "upload_screenshots slack screenshotsDir videosDir previousMsgThreadId channelID
       screenshots videos =
     (if length screenshots > 0 then
        Info (''Uploading '' @ string_of_nat (length screenshots) @ '' screenshots'') #
        (case upload_all slack screenshotsDir previousMsgThreadId channelID screenshots of
           (issued, Some error) \<Rightarrow> issued @ [SetFailed error]
         | (issued, None) \<Rightarrow>
             issued @ [Info ''...done!''] @
             upload_videos slack videosDir previousMsgThreadId channelID videos)
      else upload_videos slack videosDir previousMsgThreadId channelID videos)"

definition upload_mode ::
  "env \<Rightarrow> WebClient \<Rightarrow> string \<Rightarrow> string \<Rightarrow> string \<Rightarrow> string \<Rightarrow> string \<Rightarrow> event list" where
  "upload_mode e slack channelID author screenshotsDir videosDir previousMsgThreadId =
     Info ''Checking for videos and/or screenshots from cypress'' #
     (case walkSync e videosDir [''**/*.mp4''] of
        Inl error \<Rightarrow> [SetFailed error]
      | Inr videos \<Rightarrow>
          (case walkSync e screenshotsDir [''**/*.png''] of
             Inl error \<Rightarrow> [SetFailed error]
           | Inr screenshots \<Rightarrow>
               if length videos \<le> 0 \<and> length screenshots \<le> 0
               then [Info ''No videos or screenshots found. Exiting!'']
               else
                 Remote (ChatPostMessage (pointer_message channelID previousMsgThreadId author)) #
                 (case chat_postMessage slack
                         (pointer_message channelID previousMsgThreadId author) of
                    Inl error \<Rightarrow> [SetFailed error]
                  | Inr _ \<Rightarrow>
                      Info (''Found '' @ string_of_nat (length videos) @ '' videos and ''
                              @ string_of_nat (length screenshots) @ '' screenshots'') #
                      upload_screenshots slack screenshotsDir videosDir previousMsgThreadId
                        channelID screenshots videos)))"

subsection \<open>run (main.ts, lines 25 to 217)\<close>

text \<open>
  The two checks of the action compare its lowercase form (lines 44 and 50); the
  dispatch compares the action itself (lines 70 and 110). \<open>!channelID\<close> holds for
  \<open>undefined\<close> and for the empty string. Every \<open>Inl\<close> of a branch is an error caught at
  line 214.
\<close>

definition preamble :: "env \<Rightarrow> event list" where
  "preamble e =
     [Info (''Action: '' @ getInput e ''action''),
      Info (''Channel: '' @ getInput e ''channel''),
      Info (''Message text: '' @ getInput e ''message-text''),
      Info (''Author: '' @ getInput e ''author''),
      Info (''Screenshots dir: '' @ or_else (getInput e ''screenshots'') ''cypress/screenshots''),
      Info (''Videos dir: '' @ or_else (getInput e ''videos'') ''cypress/videos''),
      Info (''Thread ID: '' @ or_else (getInput e ''thread-id'') [])]"

definition run :: "env \<Rightarrow> event list" where
  "run e =
     (let action = getInput e ''action'';
          token = getInput e ''token'';
          channelName = getInput e ''channel'';
          author = getInput e ''author'';
          screenshotsDir = or_else (getInput e ''screenshots'') ''cypress/screenshots'';
          videosDir = or_else (getInput e ''videos'') ''cypress/videos'';
          messageText = getInput e ''message-text'';
          previousMsgThreadId = or_else (getInput e ''thread-id'') []
      in preamble e @
         (if toLowerCase action \<notin> set [''start'', ''upload'', ''finish'']
          then [SetFailed (''Unknown action: '' @ action)]
          else if toLowerCase action \<in> set [''upload'', ''finish''] \<and> previousMsgThreadId = []
          then [SetFailed (''Action: '' @ action @ '' requires thread-id.'')]
          else
            (let slack = new_WebClient e token;
                 resolved = getChannelId channelName slack
             in [Info ''Initializing slack SDK'', Info ''Slack SDK initialized successfully'']
                @ snd resolved @
                (case fst resolved of
                   None \<Rightarrow> []
                 | Some channelID \<Rightarrow>
                     if channelID = [] then []
                     else
                       (let url = run_url (env_or_empty (process_env e ''GITHUB_SERVER_URL''))
                                          (env_or_empty (process_env e ''GITHUB_REPOSITORY''))
                                          (env_or_empty (process_env e ''GITHUB_RUN_ID''))
                        in if action = ''start''
                           then start_mode slack (start_message channelID messageText url author)
                           else if action = ''finish''
                           then finish_mode slack
                                  (finish_message channelID previousMsgThreadId messageText url
                                     author (or_false (getInput e ''status'')))
                           else upload_mode e slack channelID author screenshotsDir videosDir
                                  previousMsgThreadId)))))"

subsection \<open>Example environments\<close>

text \<open>
  A workspace with the channels \<open>CI\<close> (C0) and, twice, \<open>ci\<close> (C1 and C2), two
  screenshots and one video, and a service that accepts every call. \<open>example_env\<close>
  takes the inputs of the step as a list of pairs.
\<close>

definition inputs_of :: "(string \<times> string) list \<Rightarrow> string \<Rightarrow> string" where
  "inputs_of kvs k = (case map_of kvs k of None \<Rightarrow> [] | Some v \<Rightarrow> v)"

definition example_listing :: ConversationsListResponse where
  "example_listing =
     \<lparr>list_channels = Some
        [\<lparr>channel_id = Some ''C0'', channel_name = Some ''CI''\<rparr>,
         \<lparr>channel_id = Some ''C1'', channel_name = Some ''ci''\<rparr>,
         \<lparr>channel_id = Some ''C2'', channel_name = Some ''ci''\<rparr>]\<rparr>"

definition example_slack :: WebClient where
  "example_slack =
     \<lparr>conversations_list = Inr example_listing,
      chat_postMessage = (\<lambda>m. Inr \<lparr>response_ts = Some ''169000.1''\<rparr>),
      chat_update = (\<lambda>m. Inr ()),
      files_upload = (\<lambda>u. Inr ())\<rparr>"

definition example_walk :: "string \<Rightarrow> string list \<Rightarrow> string + string list" where
  "example_walk dir globs =
     (if dir = ''cypress/screenshots'' then Inr [''a.png'', ''spec/b.png'']
      else if dir = ''cypress/videos'' then Inr [''spec.mp4'']
      else Inr [])"

definition example_env :: "(string \<times> string) list \<Rightarrow> env" where
  "example_env kvs =
     \<lparr>getInput = inputs_of kvs,
      process_env = map_of [(''GITHUB_SERVER_URL'', ''https://github.com''),
                            (''GITHUB_REPOSITORY'', ''o/r''),
                            (''GITHUB_RUN_ID'', ''7'')],
      walkSync = example_walk,
      new_WebClient = (\<lambda>token. example_slack)\<rparr>"

section \<open>Properties\<close>

subsection \<open>The observers and the shape of a run\<close>

lemma remote_calls_append: "remote_calls (xs @ ys) = remote_calls xs @ remote_calls ys"
  by (induction xs rule: remote_calls.induct) simp_all

lemma failed_append: "failed (xs @ ys) = failed xs @ failed ys"
  by (induction xs rule: failed.induct) simp_all

lemma outputs_append: "outputs (xs @ ys) = outputs xs @ outputs ys"
  by (induction xs rule: outputs.induct) simp_all

lemma preamble_silent:
  "remote_calls (preamble e) = []" "failed (preamble e) = []" "outputs (preamble e) = []"
  by (simp_all add: preamble_def)

lemma getChannelId_calls: "remote_calls (snd (getChannelId n slack)) = [ConversationsList]"
  by (simp add: getChannelId_def split: sum.split option.split)

lemma getChannelId_outputs: "outputs (snd (getChannelId n slack)) = []"
  by (simp add: getChannelId_def split: sum.split option.split)

lemma getChannelId_resolved:
  "fst (getChannelId n slack) = Some cid
     \<Longrightarrow> snd (getChannelId n slack) = [Remote ConversationsList]"
  by (simp add: getChannelId_def split: sum.splits option.splits)

lemma lower_start: "toLowerCase ''start'' = ''start''"
  and lower_finish: "toLowerCase ''finish'' = ''finish''"
  and lower_upload: "toLowerCase ''upload'' = ''upload''"
  by (simp_all add: toLowerCase_def toLowerChar_def)

lemma run_resolved:
  assumes "toLowerCase (getInput e ''action'') \<in> set [''start'', ''upload'', ''finish'']"
    and "getInput e ''thread-id'' = [] \<Longrightarrow> toLowerCase (getInput e ''action'') = ''start''"
    and "fst (getChannelId (getInput e ''channel'') (new_WebClient e (getInput e ''token'')))
           = Some cid"
    and "cid \<noteq> []"
  shows "run e =
     preamble e @
     [Info ''Initializing slack SDK'', Info ''Slack SDK initialized successfully'',
      Remote ConversationsList] @
     (if getInput e ''action'' = ''start''
      then start_mode (new_WebClient e (getInput e ''token''))
             (start_message cid (getInput e ''message-text'')
                (run_url (env_or_empty (process_env e ''GITHUB_SERVER_URL''))
                         (env_or_empty (process_env e ''GITHUB_REPOSITORY''))
                         (env_or_empty (process_env e ''GITHUB_RUN_ID'')))
                (getInput e ''author''))
      else if getInput e ''action'' = ''finish''
      then finish_mode (new_WebClient e (getInput e ''token''))
             (finish_message cid (getInput e ''thread-id'') (getInput e ''message-text'')
                (run_url (env_or_empty (process_env e ''GITHUB_SERVER_URL''))
                         (env_or_empty (process_env e ''GITHUB_REPOSITORY''))
                         (env_or_empty (process_env e ''GITHUB_RUN_ID'')))
                (getInput e ''author'') (or_false (getInput e ''status'')))
      else upload_mode e (new_WebClient e (getInput e ''token'')) cid (getInput e ''author'')
             (or_else (getInput e ''screenshots'') ''cypress/screenshots'')
             (or_else (getInput e ''videos'') ''cypress/videos'')
             (getInput e ''thread-id''))"
  using assms getChannelId_resolved[OF assms(3)]
  by (auto simp add: run_def Let_def or_else_def)

subsection \<open>Validation of the inputs\<close>

text \<open>
  C3, as the code has it. When the lowercase form of the action is \<open>upload\<close> or
  \<open>finish\<close> and the thread identifier is empty, the run reports
  \<open>Action: ... requires thread-id.\<close> as its only failure, after the seven lines of
  the log and nothing else: it makes no remote call at all, the listing of the
  channels included, and sets no output. The check of line 49 comes before the client
  is created at line 58.
\<close>

theorem missing_thread_id_fails_before_any_call:
  assumes "toLowerCase (getInput e ''action'') \<in> set [''upload'', ''finish'']"
    and "getInput e ''thread-id'' = []"
  shows "run e = preamble e @
           [SetFailed (''Action: '' @ getInput e ''action'' @ '' requires thread-id.'')]
         \<and> failed (run e) = [''Action: '' @ getInput e ''action'' @ '' requires thread-id.'']
         \<and> remote_calls (run e) = []
         \<and> outputs (run e) = []"
proof -
  have r: "run e = preamble e @
           [SetFailed (''Action: '' @ getInput e ''action'' @ '' requires thread-id.'')]"
    using assms by (auto simp add: run_def Let_def or_else_def)
  show ?thesis
    unfolding r by (simp add: remote_calls_append failed_append outputs_append preamble_silent)
qed

theorem missing_thread_id_fails_before_any_call_witness:
  "toLowerCase ''Finish'' \<in> set [''upload'', ''finish'']
   \<and> remote_calls (run (example_env [(''action'', ''Finish''), (''channel'', ''ci'')])) = []
   \<and> failed (run (example_env [(''action'', ''Finish''), (''channel'', ''ci'')]))
       = [''Action: Finish requires thread-id.'']"
  using missing_thread_id_fails_before_any_call
          [of "example_env [(''action'', ''Finish''), (''channel'', ''ci'')]"]
  by (simp add: example_env_def inputs_of_def toLowerCase_def toLowerChar_def preamble_def)

text \<open>
  C3 as the specification states it has the listing of the channels issued before the
  failure is reported. With the action \<open>upload\<close> and no thread identifier the run
  never issues it.
\<close>

theorem missing_thread_id_skips_channel_listing:
  "toLowerCase ''upload'' \<in> set [''upload'', ''finish'']
   \<and> getInput (example_env [(''action'', ''upload''), (''channel'', ''ci'')]) ''thread-id'' = []
   \<and> ConversationsList
       \<notin> set (remote_calls (run (example_env [(''action'', ''upload''), (''channel'', ''ci'')])))"
  by (simp add: run_def Let_def preamble_def or_else_def example_env_def inputs_of_def
        toLowerCase_def toLowerChar_def)

subsection \<open>Finish mode\<close>

lemma run_finish:
  assumes "getInput e ''action'' = ''finish''"
    and "getInput e ''thread-id'' \<noteq> []"
    and "fst (getChannelId (getInput e ''channel'') (new_WebClient e (getInput e ''token'')))
           = Some cid"
    and "cid \<noteq> []"
  shows "run e = preamble e @
     [Info ''Initializing slack SDK'', Info ''Slack SDK initialized successfully'',
      Remote ConversationsList] @
     finish_mode (new_WebClient e (getInput e ''token''))
             (finish_message cid (getInput e ''thread-id'') (getInput e ''message-text'')
                (run_url (env_or_empty (process_env e ''GITHUB_SERVER_URL''))
                         (env_or_empty (process_env e ''GITHUB_REPOSITORY''))
                         (env_or_empty (process_env e ''GITHUB_RUN_ID'')))
                (getInput e ''author'') (or_false (getInput e ''status'')))"
proof -
  have valid: "toLowerCase (getInput e ''action'') \<in> set [''start'', ''upload'', ''finish'']"
    using assms(1) by (simp add: lower_finish)
  show ?thesis
    using run_resolved [OF valid _ assms(3) assms(4)] assms(1,2) by simp
qed

lemma example_resolves:
  "fst (getChannelId ''ci'' example_slack) = Some ''C1''"
  by (simp add: getChannelId_def example_slack_def example_listing_def)

text \<open>
  C6. In the finish branch (the action is \<open>finish\<close>, a thread identifier is given and
  the channel is resolved) the run issues, after the listing of the channels, exactly
  one call: an update of the message whose \<open>ts\<close> is the thread identifier. Its
  attachment has the colour \<open>#64f244\<close> and the icon \<open>:ok_hand:\<close> when the status
  input is exactly \<open>success\<close>, and the colour \<open>#e30d0d\<close> and the icon
  \<open>:poop:\<close> for every other status, the empty one included; a status that is not
  empty is printed as it is in the status field.
\<close>

theorem finish_status_selects_icon_and_color:
  assumes "getInput e ''action'' = ''finish''"
    and "getInput e ''thread-id'' \<noteq> []"
    and "fst (getChannelId (getInput e ''channel'') (new_WebClient e (getInput e ''token'')))
           = Some cid"
    and "cid \<noteq> []"
  shows "\<exists>m url statusField.
           remote_calls (run e) = [ConversationsList, ChatUpdate m]
           \<and> channel m = cid
           \<and> ts m = Some (getInput e ''thread-id'')
           \<and> attachments m = Some
                [\<lparr>color = (if getInput e ''status'' = ''success'' then ''#64f244''
                            else ''#e30d0d''),
                  blocks =
                    [Header (PlainText
                       ((if getInput e ''status'' = ''success'' then '':ok_hand:''
                         else '':poop:'') @ '' '' @ getInput e ''message-text'') True),
                     Section
                       [Mrkdwn url, Mrkdwn statusField,
                        Mrkdwn (''*Author:* @'' @ getInput e ''author'')]]\<rparr>]
           \<and> (getInput e ''status'' \<noteq> [] \<longrightarrow>
                  statusField = ''*Status:* '' @ getInput e ''status'')"
  unfolding run_finish [OF assms]
  by (auto simp add: remote_calls_append preamble_silent finish_mode_def finish_message_def
        or_false_def split: sum.split)

text \<open>
  The scenario of the specification: status \<open>failure\<close>, thread \<open>169000.1\<close>.
\<close>

theorem finish_status_selects_icon_and_color_witness:
  "\<exists>m url.
     remote_calls (run (example_env [(''action'', ''finish''), (''channel'', ''ci''),
        (''status'', ''failure''), (''thread-id'', ''169000.1''), (''message-text'', ''Deploy''),
        (''author'', ''alice'')])) = [ConversationsList, ChatUpdate m]
     \<and> ts m = Some ''169000.1''
     \<and> attachments m = Some
          [\<lparr>color = ''#e30d0d'',
            blocks = [Header (PlainText '':poop: Deploy'' True),
                      Section [Mrkdwn url, Mrkdwn ''*Status:* failure'',
                               Mrkdwn ''*Author:* @alice'']]\<rparr>]"
proof -
  let ?e = "example_env [(''action'', ''finish''), (''channel'', ''ci''),
        (''status'', ''failure''), (''thread-id'', ''169000.1''), (''message-text'', ''Deploy''),
        (''author'', ''alice'')]"
  have h: "getInput ?e ''action'' = ''finish''" "getInput ?e ''thread-id'' \<noteq> []"
    "fst (getChannelId (getInput ?e ''channel'') (new_WebClient ?e (getInput ?e ''token'')))
       = Some ''C1''" "''C1'' \<noteq> []"
    by (simp_all add: example_env_def inputs_of_def example_resolves)
  have v: "getInput ?e ''status'' = ''failure''" "getInput ?e ''thread-id'' = ''169000.1''"
    "getInput ?e ''message-text'' = ''Deploy''" "getInput ?e ''author'' = ''alice''"
    by (simp_all add: example_env_def inputs_of_def)
  from finish_status_selects_icon_and_color [OF h] show ?thesis
    unfolding v by auto
qed

text \<open>
  C10. In the finish branch with a status input that is empty or not set, the status
  field of the update reads \<open>*Status:* false\<close>, and the colour and the icon are the
  negative ones.
\<close>

theorem unset_status_is_rendered_false:
  assumes "getInput e ''action'' = ''finish''"
    and "getInput e ''thread-id'' \<noteq> []"
    and "fst (getChannelId (getInput e ''channel'') (new_WebClient e (getInput e ''token'')))
           = Some cid"
    and "cid \<noteq> []"
    and "getInput e ''status'' = []"
  shows "\<exists>m url.
           remote_calls (run e) = [ConversationsList, ChatUpdate m]
           \<and> attachments m = Some
                [\<lparr>color = ''#e30d0d'',
                  blocks =
                    [Header (PlainText ('':poop: '' @ getInput e ''message-text'') True),
                     Section
                       [Mrkdwn url, Mrkdwn ''*Status:* false'',
                        Mrkdwn (''*Author:* @'' @ getInput e ''author'')]]\<rparr>]"
  unfolding run_finish [OF assms(1-4)]
  by (simp add: remote_calls_append preamble_silent finish_mode_def finish_message_def
        or_false_def assms(5) split: sum.split)

theorem unset_status_is_rendered_false_witness:
  "\<exists>m url.
     remote_calls (run (example_env [(''action'', ''finish''), (''channel'', ''ci''),
        (''thread-id'', ''169000.1''), (''message-text'', ''Deploy''),
        (''author'', ''alice'')])) = [ConversationsList, ChatUpdate m]
     \<and> attachments m = Some
          [\<lparr>color = ''#e30d0d'',
            blocks = [Header (PlainText '':poop: Deploy'' True),
                      Section [Mrkdwn url, Mrkdwn ''*Status:* false'',
                               Mrkdwn ''*Author:* @alice'']]\<rparr>]"
proof -
  let ?e = "example_env [(''action'', ''finish''), (''channel'', ''ci''),
        (''thread-id'', ''169000.1''), (''message-text'', ''Deploy''),
        (''author'', ''alice'')]"
  have h: "getInput ?e ''action'' = ''finish''" "getInput ?e ''thread-id'' \<noteq> []"
    "fst (getChannelId (getInput ?e ''channel'') (new_WebClient ?e (getInput ?e ''token'')))
       = Some ''C1''" "''C1'' \<noteq> []" "getInput ?e ''status'' = []"
    by (simp_all add: example_env_def inputs_of_def example_resolves)
  have v: "getInput ?e ''message-text'' = ''Deploy''" "getInput ?e ''author'' = ''alice''"
    by (simp_all add: example_env_def inputs_of_def)
  from unset_status_is_rendered_false [OF h] show ?thesis
    unfolding v by auto
qed

subsection \<open>Start mode\<close>

lemma getChannelId_no_post: "Remote (ChatPostMessage m) \<notin> set (snd (getChannelId n slack))"
  by (simp add: getChannelId_def split: sum.split option.split)

lemma preamble_no_post: "Remote c \<notin> set (preamble e)"
  by (simp add: preamble_def)

lemma start_post_resolved:
  assumes "getInput e ''action'' = ''start''"
    and "Remote (ChatPostMessage m) \<in> set (run e)"
  shows "\<exists>cid. fst (getChannelId (getInput e ''channel'')
                      (new_WebClient e (getInput e ''token''))) = Some cid \<and> cid \<noteq> []"
  using assms(2)
  by (auto simp add: run_def Let_def assms(1) lower_start getChannelId_no_post preamble_no_post
        split: option.splits if_splits) metis

text \<open>
  C7. When the action is \<open>start\<close> and the post-message call that the run issues is
  answered with a result, the run sets the output \<open>thread-id\<close> to the \<open>ts\<close> of that
  result, unchanged; it sets no other output, reports no failure and makes no further
  call.
\<close>

theorem start_outputs_returned_thread_id:
  assumes "getInput e ''action'' = ''start''"
    and "Remote (ChatPostMessage m) \<in> set (run e)"
    and "chat_postMessage (new_WebClient e (getInput e ''token'')) m = Inr result"
  shows "outputs (run e) = [(''thread-id'', response_ts result)]
         \<and> failed (run e) = []
         \<and> remote_calls (run e) = [ConversationsList, ChatPostMessage m]"
proof -
  obtain cid where cid:
    "fst (getChannelId (getInput e ''channel'') (new_WebClient e (getInput e ''token''))) = Some cid"
    "cid \<noteq> []"
    using start_post_resolved [OF assms(1,2)] by blast
  have valid: "toLowerCase (getInput e ''action'') \<in> set [''start'', ''upload'', ''finish'']"
    using assms(1) by (simp add: lower_start)
  have low: "toLowerCase (getInput e ''action'') = ''start''"
    using assms(1) by (simp add: lower_start)
  note r = run_resolved [OF valid low cid]
  have m: "m = start_message cid (getInput e ''message-text'')
                (run_url (env_or_empty (process_env e ''GITHUB_SERVER_URL''))
                         (env_or_empty (process_env e ''GITHUB_REPOSITORY''))
                         (env_or_empty (process_env e ''GITHUB_RUN_ID'')))
                (getInput e ''author'')"
    using assms(2) unfolding r
    by (auto simp add: assms(1) preamble_def start_mode_def split: sum.splits)
  show ?thesis
    unfolding r using assms(3)
    by (simp add: assms(1) m [symmetric] start_mode_def outputs_append failed_append
          remote_calls_append preamble_silent)
qed

theorem start_outputs_returned_thread_id_witness:
  "outputs (run (example_env [(''action'', ''start''), (''channel'', ''ci''),
      (''message-text'', ''Deploy''), (''author'', ''alice'')]))
     = [(''thread-id'', Some ''169000.1'')]"
proof -
  let ?e = "example_env [(''action'', ''start''), (''channel'', ''ci''),
      (''message-text'', ''Deploy''), (''author'', ''alice'')]"
  let ?m = "start_message ''C1'' ''Deploy''
              ''*Run URL:* <https://github.com/o/r/actions/runs/7|Click!>'' ''alice''"
  have h: "getInput ?e ''action'' = ''start''"
    by (simp add: example_env_def inputs_of_def)
  have c: "Remote (ChatPostMessage ?m) \<in> set (run ?e)"
    by (simp add: run_def Let_def example_env_def inputs_of_def toLowerCase_def toLowerChar_def
          example_resolves start_mode_def run_url_def env_or_empty_def or_else_def
          getChannelId_def example_slack_def example_listing_def)
  have p: "chat_postMessage (new_WebClient ?e (getInput ?e ''token'')) ?m
             = Inr \<lparr>response_ts = Some ''169000.1''\<rparr>"
    by (simp add: example_env_def example_slack_def)
  from start_outputs_returned_thread_id [OF h c p] show ?thesis by simp
qed

subsection \<open>Upload mode\<close>

lemma upload_not_start_finish:
  assumes "toLowerCase a = ''upload''"
  shows "a \<noteq> ''start''" "a \<noteq> ''finish''"
  using assms lower_start lower_finish by auto

lemma run_upload:
  assumes "toLowerCase (getInput e ''action'') = ''upload''"
    and "getInput e ''thread-id'' \<noteq> []"
    and "fst (getChannelId (getInput e ''channel'') (new_WebClient e (getInput e ''token'')))
           = Some cid"
    and "cid \<noteq> []"
  shows "run e = preamble e @
     [Info ''Initializing slack SDK'', Info ''Slack SDK initialized successfully'',
      Remote ConversationsList] @
     upload_mode e (new_WebClient e (getInput e ''token'')) cid (getInput e ''author'')
       (or_else (getInput e ''screenshots'') ''cypress/screenshots'')
       (or_else (getInput e ''videos'') ''cypress/videos'')
       (getInput e ''thread-id'')"
proof -
  have valid: "toLowerCase (getInput e ''action'') \<in> set [''start'', ''upload'', ''finish'']"
    using assms(1) by simp
  show ?thesis
    using run_resolved [OF valid _ assms(3) assms(4)] assms(2)
      upload_not_start_finish [OF assms(1)] by simp
qed

lemma upload_all_calls:
  "remote_calls (fst (upload_all slack dir th cid files))
     = map (\<lambda>f. FilesUpload (upload_of dir th cid f)) files"
  by (induction files) (simp_all add: upload_all_def)

lemma upload_all_failed: "failed (fst (upload_all slack dir th cid files)) = []"
  by (induction files) (simp_all add: upload_all_def)

lemma upload_all_outputs: "outputs (fst (upload_all slack dir th cid files)) = []"
  by (induction files) (simp_all add: upload_all_def)

lemma upload_all_snd:
  "snd (upload_all slack dir th cid files)
     = Promise_all (map (\<lambda>f. files_upload slack (upload_of dir th cid f)) files)"
  by (simp add: upload_all_def)

lemma rejections_empty: "rejections ps = [] \<longleftrightarrow> (\<forall>p\<in>set ps. p = Inr ())"
  by (induction ps rule: rejections.induct) auto

lemma set_rejections: "r \<in> set (rejections ps) \<longleftrightarrow> Inl r \<in> set ps"
  by (induction ps rule: rejections.induct) auto

lemma earliest_None: "earliest rs = None \<longleftrightarrow> rs = []"
  by (induction rs) (auto split: option.splits)

lemma earliest_Some:
  "earliest rs = Some r \<Longrightarrow> r \<in> set rs \<and> (\<forall>r'\<in>set rs. fst r \<le> fst r')"
  by (induction rs arbitrary: r) (fastforce split: option.splits if_splits simp: earliest_None)+

lemma Promise_all_None: "Promise_all ps = None \<longleftrightarrow> (\<forall>p\<in>set ps. p = Inr ())"
  by (simp add: Promise_all_def earliest_None rejections_empty)

lemma Promise_all_Some:
  assumes "Promise_all ps = Some m"
  shows "\<exists>t. Inl (t, m) \<in> set ps \<and> (\<forall>t' m'. Inl (t', m') \<in> set ps \<longrightarrow> t \<le> t')"
proof -
  from assms obtain r where r: "earliest (rejections ps) = Some r" "snd r = m"
    by (auto simp add: Promise_all_def)
  from earliest_Some [OF r(1)] r(2) show ?thesis
    by (cases r) (force simp add: set_rejections)
qed

text \<open>
  C9. In the upload branch (the lowercase action is \<open>upload\<close>, a thread identifier is
  given and the channel is resolved), when the walks of both roots list nothing, the
  run ends with the note that nothing was found: after the listing of the channels it
  makes no call, so it posts no pointer message and uploads nothing, and it reports no
  failure.
\<close>

theorem no_artifacts_is_noop:
  assumes "toLowerCase (getInput e ''action'') = ''upload''"
    and "getInput e ''thread-id'' \<noteq> []"
    and "fst (getChannelId (getInput e ''channel'') (new_WebClient e (getInput e ''token'')))
           = Some cid"
    and "cid \<noteq> []"
    and "walkSync e (or_else (getInput e ''videos'') ''cypress/videos'') [''**/*.mp4''] = Inr []"
    and "walkSync e (or_else (getInput e ''screenshots'') ''cypress/screenshots'')
           [''**/*.png''] = Inr []"
  shows "remote_calls (run e) = [ConversationsList]
         \<and> failed (run e) = []
         \<and> outputs (run e) = []
         \<and> last (run e) = Info ''No videos or screenshots found. Exiting!''"
  unfolding run_upload [OF assms(1-4)]
  by (simp add: upload_mode_def assms(5,6) remote_calls_append failed_append outputs_append
        preamble_silent)

theorem no_artifacts_is_noop_witness:
  "remote_calls (run ((example_env [(''action'', ''Upload''), (''channel'', ''ci''),
       (''thread-id'', ''169000.1'')]) \<lparr>walkSync := \<lambda>dir globs. Inr []\<rparr>)) = [ConversationsList]
   \<and> failed (run ((example_env [(''action'', ''Upload''), (''channel'', ''ci''),
       (''thread-id'', ''169000.1'')]) \<lparr>walkSync := \<lambda>dir globs. Inr []\<rparr>)) = []"
proof -
  let ?e = "(example_env [(''action'', ''Upload''), (''channel'', ''ci''),
       (''thread-id'', ''169000.1'')]) \<lparr>walkSync := \<lambda>dir globs. Inr []\<rparr>"
  have h: "toLowerCase (getInput ?e ''action'') = ''upload''"
    "getInput ?e ''thread-id'' \<noteq> []"
    "fst (getChannelId (getInput ?e ''channel'') (new_WebClient ?e (getInput ?e ''token'')))
       = Some ''C1''" "''C1'' \<noteq> []"
    "walkSync ?e (or_else (getInput ?e ''videos'') ''cypress/videos'') [''**/*.mp4''] = Inr []"
    "walkSync ?e (or_else (getInput ?e ''screenshots'') ''cypress/screenshots'')
           [''**/*.png''] = Inr []"
    by (simp_all add: example_env_def inputs_of_def example_resolves toLowerCase_def
          toLowerChar_def)
  from no_artifacts_is_noop [OF h] show ?thesis by simp
qed

text \<open>
  What the walk answers for a root that does not exist is decided in the walk-sync
  package. The run itself has no check of its own: it takes the list that the walk
  returns, and an error that the walk throws is caught at line 214 and reported as the
  failure of the run.
\<close>

lemma walk_error_is_reported:
  assumes "toLowerCase (getInput e ''action'') = ''upload''"
    and "getInput e ''thread-id'' \<noteq> []"
    and "fst (getChannelId (getInput e ''channel'') (new_WebClient e (getInput e ''token'')))
           = Some cid"
    and "cid \<noteq> []"
    and "walkSync e (or_else (getInput e ''videos'') ''cypress/videos'') [''**/*.mp4'']
           = Inl error
         \<or> (\<exists>videos.
               walkSync e (or_else (getInput e ''videos'') ''cypress/videos'') [''**/*.mp4'']
                 = Inr videos
               \<and> walkSync e (or_else (getInput e ''screenshots'') ''cypress/screenshots'')
                     [''**/*.png''] = Inl error)"
  shows "failed (run e) = [error] \<and> remote_calls (run e) = [ConversationsList]"
  unfolding run_upload [OF assms(1-4)] using assms(5)
  by (auto simp add: upload_mode_def remote_calls_append failed_append preamble_silent)

lemma upload_videos_calls:
  "remote_calls (upload_videos slack vdir th cid videos)
     = map (\<lambda>f. FilesUpload (upload_of vdir th cid f)) videos"
  using upload_all_calls [of slack vdir th cid videos]
  by (cases "upload_all slack vdir th cid videos")
     (auto simp add: upload_videos_def remote_calls_append split: option.split)

text \<open>
  C4, as the code has it. In the upload branch, when the walks list at least one
  screenshot and at least one video, the pointer message is answered with a result and
  every upload of a screenshot is fulfilled, the calls of the run are: the listing of
  the channels, one pointer message into the thread, one upload for each screenshot in
  the order of the walk, then one upload for each video in the order of the walk.
\<close>

theorem upload_calls_in_order:
  assumes "toLowerCase (getInput e ''action'') = ''upload''"
    and "getInput e ''thread-id'' = th" and "th \<noteq> []"
    and "new_WebClient e (getInput e ''token'') = slack"
    and "fst (getChannelId (getInput e ''channel'') slack) = Some cid" and "cid \<noteq> []"
    and "or_else (getInput e ''videos'') ''cypress/videos'' = vdir"
    and "or_else (getInput e ''screenshots'') ''cypress/screenshots'' = sdir"
    and "walkSync e vdir [''**/*.mp4''] = Inr videos"
    and "walkSync e sdir [''**/*.png''] = Inr screenshots"
    and "length screenshots \<ge> 1" and "length videos \<ge> 1"
    and "chat_postMessage slack (pointer_message cid th (getInput e ''author'')) = Inr r"
    and "\<forall>s\<in>set screenshots. files_upload slack (upload_of sdir th cid s) = Inr ()"
  shows "remote_calls (run e) =
           [ConversationsList, ChatPostMessage (pointer_message cid th (getInput e ''author''))]
           @ map (\<lambda>s. FilesUpload (upload_of sdir th cid s)) screenshots
           @ map (\<lambda>v. FilesUpload (upload_of vdir th cid v)) videos"
proof -
  have th: "getInput e ''thread-id'' \<noteq> []" using assms(2,3) by simp
  have res: "fst (getChannelId (getInput e ''channel'') (new_WebClient e (getInput e ''token'')))
           = Some cid" using assms(4,5) by simp
  have ok: "snd (upload_all slack sdir th cid screenshots) = None"
    using assms(14) by (simp add: upload_all_snd Promise_all_None)
  have shots: "remote_calls (upload_screenshots slack sdir vdir th cid screenshots videos)
     = map (\<lambda>s. FilesUpload (upload_of sdir th cid s)) screenshots
       @ map (\<lambda>v. FilesUpload (upload_of vdir th cid v)) videos"
    using ok assms(11) upload_all_calls [of slack sdir th cid screenshots]
    by (cases "upload_all slack sdir th cid screenshots")
       (simp add: upload_screenshots_def remote_calls_append upload_videos_calls)
  show ?thesis
    unfolding run_upload [OF assms(1) th res assms(6)]
    using assms(11,12)
    by (auto simp add: assms(2,4,7,8,9,10,13) upload_mode_def remote_calls_append
          preamble_silent shots)
qed

theorem upload_calls_in_order_witness:
  "remote_calls (run (example_env [(''action'', ''upload''), (''channel'', ''ci''),
       (''author'', ''alice''), (''thread-id'', ''169000.1'')]))
   = [ConversationsList,
      ChatPostMessage (pointer_message ''C1'' ''169000.1'' ''alice''),
      FilesUpload (upload_of ''cypress/screenshots'' ''169000.1'' ''C1'' ''a.png''),
      FilesUpload (upload_of ''cypress/screenshots'' ''169000.1'' ''C1'' ''spec/b.png''),
      FilesUpload (upload_of ''cypress/videos'' ''169000.1'' ''C1'' ''spec.mp4'')]"
proof -
  let ?e = "example_env [(''action'', ''upload''), (''channel'', ''ci''),
       (''author'', ''alice''), (''thread-id'', ''169000.1'')]"
  have h: "toLowerCase (getInput ?e ''action'') = ''upload''"
    "getInput ?e ''thread-id'' = ''169000.1''" "''169000.1'' \<noteq> []"
    "new_WebClient ?e (getInput ?e ''token'') = example_slack"
    "fst (getChannelId (getInput ?e ''channel'') example_slack) = Some ''C1''" "''C1'' \<noteq> []"
    "or_else (getInput ?e ''videos'') ''cypress/videos'' = ''cypress/videos''"
    "or_else (getInput ?e ''screenshots'') ''cypress/screenshots'' = ''cypress/screenshots''"
    "walkSync ?e ''cypress/videos'' [''**/*.mp4''] = Inr [''spec.mp4'']"
    "walkSync ?e ''cypress/screenshots'' [''**/*.png''] = Inr [''a.png'', ''spec/b.png'']"
    "length [''a.png'', ''spec/b.png''] \<ge> 1" "length [''spec.mp4''] \<ge> 1"
    "chat_postMessage example_slack (pointer_message ''C1'' ''169000.1'' (getInput ?e ''author''))
       = Inr \<lparr>response_ts = Some ''169000.1''\<rparr>"
    "\<forall>s\<in>set [''a.png'', ''spec/b.png''].
        files_upload example_slack (upload_of ''cypress/screenshots'' ''169000.1'' ''C1'' s) = Inr ()"
    by (simp_all add: example_env_def inputs_of_def example_resolves toLowerCase_def
          toLowerChar_def or_else_def example_walk_def)
       (simp_all add: example_slack_def)
  have a: "getInput ?e ''author'' = ''alice''"
    by (simp add: example_env_def inputs_of_def)
  from upload_calls_in_order [OF h] show ?thesis
    unfolding a by simp
qed

text \<open>
  C4 as the specification states it holds of every upload run that finds screenshots
  and videos. A run that finds two screenshots and one video and whose pointer message
  is rejected uploads nothing: the error is caught at line 214.
\<close>

theorem failed_pointer_post_stops_uploads:
  "walkSync (example_env [(''action'', ''upload''), (''channel'', ''ci''),
        (''author'', ''alice''), (''thread-id'', ''169000.1'')]
      \<lparr>new_WebClient := \<lambda>token. example_slack
         \<lparr>chat_postMessage := \<lambda>m. Inl ''not_in_channel''\<rparr>\<rparr>)
     ''cypress/screenshots'' [''**/*.png''] = Inr [''a.png'', ''spec/b.png'']
   \<and> walkSync (example_env [(''action'', ''upload''), (''channel'', ''ci''),
        (''author'', ''alice''), (''thread-id'', ''169000.1'')]
      \<lparr>new_WebClient := \<lambda>token. example_slack
         \<lparr>chat_postMessage := \<lambda>m. Inl ''not_in_channel''\<rparr>\<rparr>)
     ''cypress/videos'' [''**/*.mp4''] = Inr [''spec.mp4'']
   \<and> remote_calls (run (example_env [(''action'', ''upload''), (''channel'', ''ci''),
        (''author'', ''alice''), (''thread-id'', ''169000.1'')]
      \<lparr>new_WebClient := \<lambda>token. example_slack
         \<lparr>chat_postMessage := \<lambda>m. Inl ''not_in_channel''\<rparr>\<rparr>))
     = [ConversationsList, ChatPostMessage (pointer_message ''C1'' ''169000.1'' ''alice'')]
   \<and> failed (run (example_env [(''action'', ''upload''), (''channel'', ''ci''),
        (''author'', ''alice''), (''thread-id'', ''169000.1'')]
      \<lparr>new_WebClient := \<lambda>token. example_slack
         \<lparr>chat_postMessage := \<lambda>m. Inl ''not_in_channel''\<rparr>\<rparr>))
     = [''not_in_channel'']"
  by (simp add: run_def Let_def preamble_def upload_mode_def getChannelId_def
        example_env_def inputs_of_def toLowerCase_def toLowerChar_def or_else_def
        example_walk_def example_slack_def example_listing_def)

lemma upload_all_issued:
  "Remote (FilesUpload u) \<in> set (fst (upload_all slack dir th cid files))
     \<longleftrightarrow> u \<in> upload_of dir th cid ` set files"
  by (auto simp add: upload_all_def)

lemma group_rejected:
  assumes "f \<in> set files" and "files_upload slack (upload_of dir th cid f) = Inl x"
  shows "\<exists>t m. snd (upload_all slack dir th cid files) = Some m
           \<and> (\<exists>g\<in>set files. files_upload slack (upload_of dir th cid g) = Inl (t, m))
           \<and> (\<forall>g\<in>set files. \<forall>t' m'.
                 files_upload slack (upload_of dir th cid g) = Inl (t', m') \<longrightarrow> t \<le> t')"
proof -
  let ?ps = "map (\<lambda>f. files_upload slack (upload_of dir th cid f)) files"
  have "Promise_all ?ps \<noteq> None"
  proof
    assume "Promise_all ?ps = None"
    then have "files_upload slack (upload_of dir th cid f) = Inr ()"
      using assms(1) by (simp add: Promise_all_None)
    with assms(2) show False by simp
  qed
  then obtain m where m: "Promise_all ?ps = Some m" by blast
  from Promise_all_Some [OF m] obtain t where
    t: "Inl (t, m) \<in> set ?ps" "\<forall>t' m'. Inl (t', m') \<in> set ?ps \<longrightarrow> t \<le> t'" by blast
  have "\<exists>g\<in>set files. files_upload slack (upload_of dir th cid g) = Inl (t, m)"
    using t(1) by auto
  moreover have "\<forall>g\<in>set files. \<forall>t' m'.
                 files_upload slack (upload_of dir th cid g) = Inl (t', m') \<longrightarrow> t \<le> t'"
  proof (intro ballI allI impI)
    fix g t' m'
    assume "g \<in> set files" "files_upload slack (upload_of dir th cid g) = Inl (t', m')"
    then have "Inl (t', m') \<in> set ?ps" by force
    with t(2) show "t \<le> t'" by blast
  qed
  ultimately show ?thesis using m by (auto simp add: upload_all_snd)
qed

lemma upload_videos_unfold:
  "upload_videos slack vdir th cid videos =
     (if videos = [] then []
      else Info (''Uploading '' @ string_of_nat (length videos) @ '' videos'') #
           fst (upload_all slack vdir th cid videos) @
           (case snd (upload_all slack vdir th cid videos) of
              Some m \<Rightarrow> [SetFailed m]
            | None \<Rightarrow> [Info ''...done!'']))"
  by (simp add: upload_videos_def split: prod.split option.split)

lemma upload_screenshots_unfold:
  "upload_screenshots slack sdir vdir th cid screenshots videos =
     (if screenshots = [] then upload_videos slack vdir th cid videos
      else Info (''Uploading '' @ string_of_nat (length screenshots) @ '' screenshots'') #
           fst (upload_all slack sdir th cid screenshots) @
           (case snd (upload_all slack sdir th cid screenshots) of
              Some m \<Rightarrow> [SetFailed m]
            | None \<Rightarrow> Info ''...done!'' # upload_videos slack vdir th cid videos))"
  by (simp add: upload_screenshots_def split: prod.split option.split)

lemma upload_videos_rejected:
  assumes "Remote (FilesUpload u) \<in> set (upload_videos slack vdir th cid videos)"
    and "files_upload slack u = Inl x"
  shows "\<exists>t m.
      (\<exists>u'. Remote (FilesUpload u') \<in> set (upload_videos slack vdir th cid videos)
            \<and> files_upload slack u' = Inl (t, m))
    \<and> (\<forall>u' t' m'. Remote (FilesUpload u') \<in> set (upload_videos slack vdir th cid videos)
            \<longrightarrow> files_upload slack u' = Inl (t', m') \<longrightarrow> t \<le> t')
    \<and> failed (upload_videos slack vdir th cid videos) = [m]
    \<and> last (upload_videos slack vdir th cid videos) = SetFailed m"
proof -
  have ne: "videos \<noteq> []"
    using assms(1) by (auto simp add: upload_videos_unfold)
  have "u \<in> upload_of vdir th cid ` set videos"
    using assms(1) ne
    by (auto simp add: upload_videos_unfold upload_all_issued split: option.splits)
  then obtain f where f: "f \<in> set videos" "files_upload slack (upload_of vdir th cid f) = Inl x"
    using assms(2) by auto
  from group_rejected [OF f] obtain t m where
    m: "snd (upload_all slack vdir th cid videos) = Some m"
    and g: "\<exists>g\<in>set videos. files_upload slack (upload_of vdir th cid g) = Inl (t, m)"
    and least: "\<forall>g\<in>set videos. \<forall>t' m'.
                 files_upload slack (upload_of vdir th cid g) = Inl (t', m') \<longrightarrow> t \<le> t'"
    by blast
  have E: "upload_videos slack vdir th cid videos =
             Info (''Uploading '' @ string_of_nat (length videos) @ '' videos'') #
             fst (upload_all slack vdir th cid videos) @ [SetFailed m]"
    using ne m by (simp add: upload_videos_unfold)
  have issued: "\<And>u'. Remote (FilesUpload u') \<in> set (upload_videos slack vdir th cid videos)
                  \<longleftrightarrow> u' \<in> upload_of vdir th cid ` set videos"
    unfolding E by (simp add: upload_all_issued)
  have 1: "\<exists>u'. Remote (FilesUpload u') \<in> set (upload_videos slack vdir th cid videos)
            \<and> files_upload slack u' = Inl (t, m)"
    using g unfolding issued by blast
  have 2: "\<forall>u' t' m'. Remote (FilesUpload u') \<in> set (upload_videos slack vdir th cid videos)
            \<longrightarrow> files_upload slack u' = Inl (t', m') \<longrightarrow> t \<le> t'"
    using least unfolding issued by blast
  have 3: "failed (upload_videos slack vdir th cid videos) = [m]"
    unfolding E by (simp add: failed_append upload_all_failed)
  have 4: "last (upload_videos slack vdir th cid videos) = SetFailed m"
    unfolding E by simp
  from 1 2 3 4 show ?thesis by blast
qed

lemma upload_screenshots_rejected:
  assumes "Remote (FilesUpload u)
             \<in> set (upload_screenshots slack sdir vdir th cid screenshots videos)"
    and "files_upload slack u = Inl x"
  shows "\<exists>t m.
      (\<exists>u'. Remote (FilesUpload u')
              \<in> set (upload_screenshots slack sdir vdir th cid screenshots videos)
            \<and> files_upload slack u' = Inl (t, m))
    \<and> (\<forall>u' t' m'. Remote (FilesUpload u')
              \<in> set (upload_screenshots slack sdir vdir th cid screenshots videos)
            \<longrightarrow> files_upload slack u' = Inl (t', m') \<longrightarrow> t \<le> t')
    \<and> failed (upload_screenshots slack sdir vdir th cid screenshots videos) = [m]
    \<and> last (upload_screenshots slack sdir vdir th cid screenshots videos) = SetFailed m"
proof (cases "screenshots = []")
  case True
  then have E: "upload_screenshots slack sdir vdir th cid screenshots videos
                  = upload_videos slack vdir th cid videos"
    by (simp add: upload_screenshots_unfold)
  show ?thesis
    using upload_videos_rejected [of u slack vdir th cid videos x] assms unfolding E by simp
next
  case ne: False
  show ?thesis
  proof (cases "snd (upload_all slack sdir th cid screenshots)")
    case (Some m0)
    then have "Promise_all (map (\<lambda>f. files_upload slack (upload_of sdir th cid f)) screenshots)
                 \<noteq> None"
      by (simp add: upload_all_snd)
    then have "\<not> (\<forall>s\<in>set screenshots. files_upload slack (upload_of sdir th cid s) = Inr ())"
      by (simp add: Promise_all_None)
    then obtain f where f: "f \<in> set screenshots"
      "files_upload slack (upload_of sdir th cid f) \<noteq> Inr ()" by blast
    then obtain x' where x': "files_upload slack (upload_of sdir th cid f) = Inl x'"
      by (cases "files_upload slack (upload_of sdir th cid f)") auto
    from group_rejected [OF f(1) x'] obtain t m where
      m: "snd (upload_all slack sdir th cid screenshots) = Some m"
      and g: "\<exists>g\<in>set screenshots. files_upload slack (upload_of sdir th cid g) = Inl (t, m)"
      and least: "\<forall>g\<in>set screenshots. \<forall>t' m'.
                 files_upload slack (upload_of sdir th cid g) = Inl (t', m') \<longrightarrow> t \<le> t'"
      by blast
    have E: "upload_screenshots slack sdir vdir th cid screenshots videos =
             Info (''Uploading '' @ string_of_nat (length screenshots) @ '' screenshots'') #
             fst (upload_all slack sdir th cid screenshots) @ [SetFailed m]"
      using ne m by (simp add: upload_screenshots_unfold)
    have issued: "\<And>u'. Remote (FilesUpload u')
                    \<in> set (upload_screenshots slack sdir vdir th cid screenshots videos)
                  \<longleftrightarrow> u' \<in> upload_of sdir th cid ` set screenshots"
      unfolding E by (simp add: upload_all_issued)
    have 1: "\<exists>u'. Remote (FilesUpload u')
                \<in> set (upload_screenshots slack sdir vdir th cid screenshots videos)
            \<and> files_upload slack u' = Inl (t, m)"
      using g unfolding issued by blast
    have 2: "\<forall>u' t' m'. Remote (FilesUpload u')
                \<in> set (upload_screenshots slack sdir vdir th cid screenshots videos)
            \<longrightarrow> files_upload slack u' = Inl (t', m') \<longrightarrow> t \<le> t'"
      using least unfolding issued by blast
    have 3: "failed (upload_screenshots slack sdir vdir th cid screenshots videos) = [m]"
      unfolding E by (simp add: failed_append upload_all_failed)
    have 4: "last (upload_screenshots slack sdir vdir th cid screenshots videos) = SetFailed m"
      unfolding E by simp
    from 1 2 3 4 show ?thesis by blast
  next
    case None
    then have ok: "\<forall>s\<in>set screenshots. files_upload slack (upload_of sdir th cid s) = Inr ()"
      by (simp add: upload_all_snd Promise_all_None)
    have E: "upload_screenshots slack sdir vdir th cid screenshots videos =
             Info (''Uploading '' @ string_of_nat (length screenshots) @ '' screenshots'') #
             fst (upload_all slack sdir th cid screenshots) @
             Info ''...done!'' # upload_videos slack vdir th cid videos"
      using ne None by (simp add: upload_screenshots_unfold)
    have issued: "\<And>u'. Remote (FilesUpload u')
                    \<in> set (upload_screenshots slack sdir vdir th cid screenshots videos)
                  \<longleftrightarrow> u' \<in> upload_of sdir th cid ` set screenshots
                      \<or> Remote (FilesUpload u') \<in> set (upload_videos slack vdir th cid videos)"
      unfolding E by (simp add: upload_all_issued)
    have fulfilled: "\<And>u' y. u' \<in> upload_of sdir th cid ` set screenshots
                       \<Longrightarrow> files_upload slack u' \<noteq> Inl y"
      using ok by auto
    have inV: "Remote (FilesUpload u) \<in> set (upload_videos slack vdir th cid videos)"
      using assms issued fulfilled by blast
    from upload_videos_rejected [OF inV assms(2)] obtain t m where
      v1: "\<exists>u'. Remote (FilesUpload u') \<in> set (upload_videos slack vdir th cid videos)
            \<and> files_upload slack u' = Inl (t, m)"
      and v2: "\<forall>u' t' m'. Remote (FilesUpload u') \<in> set (upload_videos slack vdir th cid videos)
            \<longrightarrow> files_upload slack u' = Inl (t', m') \<longrightarrow> t \<le> t'"
      and v3: "failed (upload_videos slack vdir th cid videos) = [m]"
      and v4: "last (upload_videos slack vdir th cid videos) = SetFailed m"
      by blast
    have vne: "upload_videos slack vdir th cid videos \<noteq> []"
      using inV by auto
    have 1: "\<exists>u'. Remote (FilesUpload u')
                \<in> set (upload_screenshots slack sdir vdir th cid screenshots videos)
            \<and> files_upload slack u' = Inl (t, m)"
      using v1 issued by blast
    have 2: "\<forall>u' t' m'. Remote (FilesUpload u')
                \<in> set (upload_screenshots slack sdir vdir th cid screenshots videos)
            \<longrightarrow> files_upload slack u' = Inl (t', m') \<longrightarrow> t \<le> t'"
      using v2 issued fulfilled by blast
    have 3: "failed (upload_screenshots slack sdir vdir th cid screenshots videos) = [m]"
      unfolding E by (simp add: failed_append upload_all_failed v3)
    have 4: "last (upload_screenshots slack sdir vdir th cid screenshots videos) = SetFailed m"
      unfolding E using vne v4 by simp
    from 1 2 3 4 show ?thesis by blast
  qed
qed

lemma upload_screenshots_calls:
  "\<exists>us. remote_calls (upload_screenshots slack sdir vdir th cid screenshots videos)
          = map FilesUpload us"
proof -
  have v: "remote_calls (upload_videos slack vdir th cid videos)
             = map FilesUpload (map (upload_of vdir th cid) videos)"
    by (simp add: upload_videos_calls)
  have s: "remote_calls (fst (upload_all slack sdir th cid screenshots))
             = map FilesUpload (map (upload_of sdir th cid) screenshots)"
    by (simp add: upload_all_calls)
  have "remote_calls (upload_screenshots slack sdir vdir th cid screenshots videos)
          = map FilesUpload (map (upload_of vdir th cid) videos)
      \<or> remote_calls (upload_screenshots slack sdir vdir th cid screenshots videos)
          = map FilesUpload (map (upload_of sdir th cid) screenshots)
      \<or> remote_calls (upload_screenshots slack sdir vdir th cid screenshots videos)
          = map FilesUpload (map (upload_of sdir th cid) screenshots
                             @ map (upload_of vdir th cid) videos)"
    by (simp add: upload_screenshots_unfold remote_calls_append v s split: option.split)
  then show ?thesis by blast
qed

lemma start_mode_no_upload: "Remote (FilesUpload u) \<notin> set (start_mode slack m)"
  by (simp add: start_mode_def split: sum.split)

lemma finish_mode_no_upload: "Remote (FilesUpload u) \<notin> set (finish_mode slack m)"
  by (simp add: finish_mode_def split: sum.split)

lemma getChannelId_no_upload: "Remote (FilesUpload u) \<notin> set (snd (getChannelId n slack))"
  by (simp add: getChannelId_def split: sum.split option.split)

lemma upload_mode_uploading:
  assumes "Remote (FilesUpload u) \<in> set (upload_mode e slack cid author sdir vdir th)"
  shows "\<exists>videos screenshots found.
           upload_mode e slack cid author sdir vdir th =
             [Info ''Checking for videos and/or screenshots from cypress'',
              Remote (ChatPostMessage (pointer_message cid th author)), Info found] @
             upload_screenshots slack sdir vdir th cid screenshots videos"
  using assms
  by (auto simp add: upload_mode_def split: sum.splits if_splits)

lemma run_uploading:
  assumes "Remote (FilesUpload u) \<in> set (run e)"
  shows "\<exists>cid videos screenshots p found sdir vdir th.
           run e = (preamble e @
             [Info ''Initializing slack SDK'', Info ''Slack SDK initialized successfully'',
              Remote ConversationsList,
              Info ''Checking for videos and/or screenshots from cypress'',
              Remote (ChatPostMessage p), Info found]) @
             upload_screenshots (new_WebClient e (getInput e ''token'')) sdir vdir th cid
               screenshots videos"
proof -
  let ?slack = "new_WebClient e (getInput e ''token'')"
  let ?r = "getChannelId (getInput e ''channel'') ?slack"
  have "\<exists>cid. fst ?r = Some cid \<and> cid \<noteq> []
          \<and> getInput e ''action'' \<noteq> ''start'' \<and> getInput e ''action'' \<noteq> ''finish''
          \<and> toLowerCase (getInput e ''action'') \<in> set [''start'', ''upload'', ''finish'']
          \<and> \<not> (toLowerCase (getInput e ''action'') \<in> set [''upload'', ''finish'']
                 \<and> or_else (getInput e ''thread-id'') [] = [])"
    using assms
    by (auto simp add: run_def Let_def preamble_no_post getChannelId_no_upload
          start_mode_no_upload finish_mode_no_upload
          split: if_splits option.splits) metis+
  then obtain cid where cid: "fst ?r = Some cid" and ne: "cid \<noteq> []"
    and act: "getInput e ''action'' \<noteq> ''start''" "getInput e ''action'' \<noteq> ''finish''"
    and valid: "toLowerCase (getInput e ''action'') \<in> set [''start'', ''upload'', ''finish'']"
    and thread: "\<not> (toLowerCase (getInput e ''action'') \<in> set [''upload'', ''finish'']
                 \<and> or_else (getInput e ''thread-id'') [] = [])"
    by blast
  have r: "run e = preamble e @
       [Info ''Initializing slack SDK'', Info ''Slack SDK initialized successfully''] @ snd ?r @
       upload_mode e ?slack cid (getInput e ''author'')
       (or_else (getInput e ''screenshots'') ''cypress/screenshots'')
       (or_else (getInput e ''videos'') ''cypress/videos'')
       (or_else (getInput e ''thread-id'') [])"
    using cid ne act valid thread by (simp add: run_def Let_def)
  have up: "Remote (FilesUpload u) \<in> set (upload_mode e ?slack cid (getInput e ''author'')
       (or_else (getInput e ''screenshots'') ''cypress/screenshots'')
       (or_else (getInput e ''videos'') ''cypress/videos'')
       (or_else (getInput e ''thread-id'') []))"
    using assms unfolding r by (simp add: preamble_no_post getChannelId_no_upload)
  from upload_mode_uploading [OF up] obtain videos screenshots found where
    m: "upload_mode e ?slack cid (getInput e ''author'')
       (or_else (getInput e ''screenshots'') ''cypress/screenshots'')
       (or_else (getInput e ''videos'') ''cypress/videos'')
       (or_else (getInput e ''thread-id'') []) =
             [Info ''Checking for videos and/or screenshots from cypress'',
              Remote (ChatPostMessage (pointer_message cid (or_else (getInput e ''thread-id'') [])
                 (getInput e ''author''))), Info found] @
             upload_screenshots ?slack (or_else (getInput e ''screenshots'') ''cypress/screenshots'')
       (or_else (getInput e ''videos'') ''cypress/videos'') (or_else (getInput e ''thread-id'') [])
               cid screenshots videos"
    by blast
  show ?thesis
    unfolding r m getChannelId_resolved [OF cid] by simp blast
qed

text \<open>
  C5. When an upload that the run has issued is rejected, the run reports exactly one
  failure, as its last effect, and its message is the message of a rejected upload of
  the run: of the one whose rejection arrives first, so of the rejected one when there
  is only one. The calls of the run are the listing of the channels, the pointer
  message and uploads: nothing is called to undo an upload.
\<close>

theorem rejected_upload_fails_run:
  assumes "Remote (FilesUpload u) \<in> set (run e)"
    and "files_upload (new_WebClient e (getInput e ''token'')) u = Inl x"
  shows "\<exists>t m.
      (\<exists>u'. Remote (FilesUpload u') \<in> set (run e)
            \<and> files_upload (new_WebClient e (getInput e ''token'')) u' = Inl (t, m))
    \<and> (\<forall>u' t' m'. Remote (FilesUpload u') \<in> set (run e)
            \<longrightarrow> files_upload (new_WebClient e (getInput e ''token'')) u' = Inl (t', m')
            \<longrightarrow> t \<le> t')
    \<and> failed (run e) = [m]
    \<and> last (run e) = SetFailed m
    \<and> (\<exists>p us. remote_calls (run e) = ConversationsList # ChatPostMessage p # map FilesUpload us)"
proof -
  let ?slack = "new_WebClient e (getInput e ''token'')"
  from run_uploading [OF assms(1)] obtain cid videos screenshots p found sdir vdir th where
    r: "run e = (preamble e @
             [Info ''Initializing slack SDK'', Info ''Slack SDK initialized successfully'',
              Remote ConversationsList,
              Info ''Checking for videos and/or screenshots from cypress'',
              Remote (ChatPostMessage p), Info found]) @
             upload_screenshots ?slack sdir vdir th cid screenshots videos"
    by blast
  let ?E = "upload_screenshots ?slack sdir vdir th cid screenshots videos"
  have issued: "\<And>u'. Remote (FilesUpload u') \<in> set (run e)
                  \<longleftrightarrow> Remote (FilesUpload u') \<in> set ?E"
    unfolding r by (simp add: preamble_no_post)
  have inE: "Remote (FilesUpload u) \<in> set ?E"
    using assms(1) issued by simp
  from upload_screenshots_rejected [OF inE assms(2)] obtain t m where
    e1: "\<exists>u'. Remote (FilesUpload u') \<in> set ?E \<and> files_upload ?slack u' = Inl (t, m)"
    and e2: "\<forall>u' t' m'. Remote (FilesUpload u') \<in> set ?E
            \<longrightarrow> files_upload ?slack u' = Inl (t', m') \<longrightarrow> t \<le> t'"
    and e3: "failed ?E = [m]"
    and e4: "last ?E = SetFailed m"
    by blast
  have ne: "?E \<noteq> []" using inE by auto
  from upload_screenshots_calls [of ?slack sdir vdir th cid screenshots videos]
  obtain us where us: "remote_calls ?E = map FilesUpload us" by blast
  have 1: "\<exists>u'. Remote (FilesUpload u') \<in> set (run e)
            \<and> files_upload ?slack u' = Inl (t, m)"
    using e1 unfolding issued .
  have 2: "\<forall>u' t' m'. Remote (FilesUpload u') \<in> set (run e)
            \<longrightarrow> files_upload ?slack u' = Inl (t', m') \<longrightarrow> t \<le> t'"
    using e2 unfolding issued .
  have 3: "failed (run e) = [m]"
    unfolding r by (simp add: failed_append preamble_silent e3)
  have 4: "last (run e) = SetFailed m"
    unfolding r using ne e4 by simp
  have 5: "\<exists>p us. remote_calls (run e)
             = ConversationsList # ChatPostMessage p # map FilesUpload us"
    unfolding r by (simp add: remote_calls_append preamble_silent us) blast
  from 1 2 3 4 5 show ?thesis by blast
qed

text \<open>
  Two screenshots are rejected, the second one first: its message is the one reported.
\<close>

theorem rejected_upload_fails_run_witness:
  "failed (run (example_env [(''action'', ''upload''), (''channel'', ''ci''),
       (''author'', ''alice''), (''thread-id'', ''169000.1'')]
     \<lparr>new_WebClient := \<lambda>token. example_slack
        \<lparr>files_upload := \<lambda>u. if filename u = ''a.png'' then Inl (5, ''file too large'')
                               else if filename u = ''spec/b.png'' then Inl (2, ''rate limited'')
                               else Inr ()\<rparr>\<rparr>)) = [''rate limited'']"
proof -
  let ?slack = "example_slack
        \<lparr>files_upload := \<lambda>u. if filename u = ''a.png'' then Inl (5, ''file too large'')
                               else if filename u = ''spec/b.png'' then Inl (2, ''rate limited'')
                               else Inr ()\<rparr>"
  let ?e = "example_env [(''action'', ''upload''), (''channel'', ''ci''),
       (''author'', ''alice''), (''thread-id'', ''169000.1'')]
     \<lparr>new_WebClient := \<lambda>token. ?slack\<rparr>"
  let ?a = "upload_of ''cypress/screenshots'' ''169000.1'' ''C1'' ''a.png''"
  let ?b = "upload_of ''cypress/screenshots'' ''169000.1'' ''C1'' ''spec/b.png''"
  have issued: "\<And>u'. Remote (FilesUpload u') \<in> set (run ?e) \<longleftrightarrow> u' = ?a \<or> u' = ?b"
    by (simp add: run_def Let_def preamble_def upload_mode_def upload_screenshots_def
          upload_all_def Promise_all_def upload_of_def getChannelId_def
          example_env_def inputs_of_def toLowerCase_def toLowerChar_def or_else_def
          example_walk_def example_slack_def example_listing_def)
  have a: "Remote (FilesUpload ?a) \<in> set (run ?e)" unfolding issued by simp
  have x: "files_upload (new_WebClient ?e (getInput ?e ''token'')) ?a = Inl (5, ''file too large'')"
    by (simp add: example_env_def upload_of_def)
  from rejected_upload_fails_run [OF a x] obtain t m u' where
    u': "Remote (FilesUpload u') \<in> set (run ?e)"
      "files_upload (new_WebClient ?e (getInput ?e ''token'')) u' = Inl (t, m)"
    and least: "\<forall>u' t' m'. Remote (FilesUpload u') \<in> set (run ?e)
            \<longrightarrow> files_upload (new_WebClient ?e (getInput ?e ''token'')) u' = Inl (t', m')
            \<longrightarrow> t \<le> t'"
    and f: "failed (run ?e) = [m]"
    by blast
  have b: "Remote (FilesUpload ?b) \<in> set (run ?e)" unfolding issued by simp
  have y: "files_upload (new_WebClient ?e (getInput ?e ''token'')) ?b = Inl (2, ''rate limited'')"
    by (simp add: example_env_def upload_of_def)
  from least b y have "t \<le> 2" by blast
  moreover from u'(1) have "u' = ?a \<or> u' = ?b" unfolding issued .
  ultimately have "m = ''rate limited''"
    using u'(2) x y by auto
  with f show ?thesis by simp
qed

subsection \<open>Channel resolution\<close>

lemma find_first_match:
  assumes "\<forall>d\<in>set pre. \<not> P d" and "P c"
  shows "find P (pre @ c # post) = Some c"
  using assms by (induction pre) simp_all

lemma find_no_match: "(\<forall>d\<in>set cs. \<not> P d) \<Longrightarrow> find P cs = None"
  by (induction cs) simp_all

lemma run_unresolved:
  assumes "fst (getChannelId (getInput e ''channel'') (new_WebClient e (getInput e ''token'')))
             = None"
    and "failed (snd (getChannelId (getInput e ''channel'')
                        (new_WebClient e (getInput e ''token'')))) \<noteq> []"
  shows "(\<forall>c\<in>set (remote_calls (run e)). c = ConversationsList)
         \<and> failed (run e) \<noteq> [] \<and> outputs (run e) = []"
  using assms
  by (simp add: run_def Let_def remote_calls_append failed_append outputs_append
        preamble_silent getChannelId_calls getChannelId_outputs)

text \<open>
  C8. Given an answer to the listing call: the channel whose name equals the wanted
  name, character for character, and that no channel before it in the list equals, is
  the one whose identifier \<open>getChannelId\<close> returns. When no channel of the answer has
  the wanted name (or the answer has no list), \<open>getChannelId\<close> returns nothing and
  reports \<open>Channel '...' not found.\<close>; a run with that client and that channel name
  then makes no call other than the listing, reports a failure and sets no output.
\<close>

theorem channel_resolution_exact_first_match:
  assumes "conversations_list slack = Inr result"
  shows "(\<forall>pre c post.
            list_channels result = Some (pre @ c # post)
            \<longrightarrow> (\<forall>d\<in>set pre. channel_name d \<noteq> Some n)
            \<longrightarrow> channel_name c = Some n
            \<longrightarrow> getChannelId n slack = (channel_id c, [Remote ConversationsList]))
       \<and> ((\<forall>cs. list_channels result = Some cs
                 \<longrightarrow> (\<forall>d\<in>set cs. channel_name d \<noteq> Some n))
            \<longrightarrow> getChannelId n slack
                  = (None, [Remote ConversationsList,
                            SetFailed (''Channel '' @ [CHR 0x27] @ n @ [CHR 0x27]
                                         @ '' not found.'')])
                \<and> (\<forall>e. new_WebClient e (getInput e ''token'') = slack
                        \<longrightarrow> getInput e ''channel'' = n
                        \<longrightarrow> (\<forall>c\<in>set (remote_calls (run e)). c = ConversationsList)
                            \<and> failed (run e) \<noteq> []
                            \<and> outputs (run e) = []))"
proof (intro conjI allI impI)
  fix pre c post
  assume "list_channels result = Some (pre @ c # post)"
    and "\<forall>d\<in>set pre. channel_name d \<noteq> Some n" and "channel_name c = Some n"
  then show "getChannelId n slack = (channel_id c, [Remote ConversationsList])"
    using assms find_first_match [of pre "\<lambda>c. channel_name c = Some n" c post]
    by (simp add: getChannelId_def)
next
  assume absent: "\<forall>cs. list_channels result = Some cs
                   \<longrightarrow> (\<forall>d\<in>set cs. channel_name d \<noteq> Some n)"
  show none: "getChannelId n slack
          = (None, [Remote ConversationsList,
                    SetFailed (''Channel '' @ [CHR 0x27] @ n @ [CHR 0x27] @ '' not found.'')])"
  proof (cases "list_channels result")
    case None
    then show ?thesis using assms by (simp add: getChannelId_def)
  next
    case (Some cs)
    with absent have "find (\<lambda>c. channel_name c = Some n) cs = None"
      by (simp add: find_no_match)
    with Some show ?thesis using assms by (simp add: getChannelId_def)
  qed
  fix e :: env
  assume "new_WebClient e (getInput e ''token'') = slack" and "getInput e ''channel'' = n"
  with none have
    "fst (getChannelId (getInput e ''channel'') (new_WebClient e (getInput e ''token''))) = None"
    "failed (snd (getChannelId (getInput e ''channel'')
                    (new_WebClient e (getInput e ''token'')))) \<noteq> []"
    by simp_all
  from run_unresolved [OF this]
  show "\<forall>c\<in>set (remote_calls (run e)). c = ConversationsList"
    and "failed (run e) \<noteq> []" and "outputs (run e) = []"
    by simp_all
qed

text \<open>
  In the example workspace \<open>ci\<close> resolves to C1: not to C0, whose name is \<open>CI\<close>,
  and not to C2, which comes later. \<open>Ci\<close> does not resolve.
\<close>

theorem channel_resolution_exact_first_match_witness:
  "getChannelId ''ci'' example_slack = (Some ''C1'', [Remote ConversationsList])
   \<and> fst (getChannelId ''Ci'' example_slack) = None
   \<and> remote_calls (run (example_env [(''action'', ''start''), (''channel'', ''Ci'')]))
       = [ConversationsList]
   \<and> failed (run (example_env [(''action'', ''start''), (''channel'', ''Ci'')]))
       = [''Channel '' @ [CHR 0x27] @ ''Ci'' @ [CHR 0x27] @ '' not found.'']"
proof -
  let ?e = "example_env [(''action'', ''start''), (''channel'', ''Ci'')]"
  have l: "conversations_list example_slack = Inr example_listing"
    by (simp add: example_slack_def)
  have found: "list_channels example_listing
      = Some ([\<lparr>channel_id = Some ''C0'', channel_name = Some ''CI''\<rparr>]
              @ \<lparr>channel_id = Some ''C1'', channel_name = Some ''ci''\<rparr>
              # [\<lparr>channel_id = Some ''C2'', channel_name = Some ''ci''\<rparr>])"
    "\<forall>d\<in>set [\<lparr>channel_id = Some ''C0'', channel_name = Some ''CI''\<rparr>].
        channel_name d \<noteq> Some ''ci''"
    "channel_name \<lparr>channel_id = Some ''C1'', channel_name = Some ''ci''\<rparr> = Some ''ci''"
    by (simp_all add: example_listing_def)
  have absent: "\<forall>cs. list_channels example_listing = Some cs
                   \<longrightarrow> (\<forall>d\<in>set cs. channel_name d \<noteq> Some ''Ci'')"
    by (simp add: example_listing_def)
  have e: "new_WebClient ?e (getInput ?e ''token'') = example_slack"
    "getInput ?e ''channel'' = ''Ci''"
    by (simp_all add: example_env_def inputs_of_def)
  have 1: "getChannelId ''ci'' example_slack = (Some ''C1'', [Remote ConversationsList])"
    using channel_resolution_exact_first_match
            [OF l, of "''ci''", THEN conjunct1, THEN spec, THEN spec, THEN spec,
             THEN mp, OF found(1), THEN mp, OF found(2), THEN mp, OF found(3)]
    by simp
  have 2: "getChannelId ''Ci'' example_slack
          = (None, [Remote ConversationsList,
                    SetFailed (''Channel '' @ [CHR 0x27] @ ''Ci'' @ [CHR 0x27] @ '' not found.'')])"
    using channel_resolution_exact_first_match
            [OF l, of "''Ci''", THEN conjunct2, THEN mp, OF absent, THEN conjunct1]
    by simp
  have r: "run ?e = preamble ?e @
     [Info ''Initializing slack SDK'', Info ''Slack SDK initialized successfully'',
      Remote ConversationsList,
      SetFailed (''Channel '' @ [CHR 0x27] @ ''Ci'' @ [CHR 0x27] @ '' not found.'')]"
    using 2 e
    by (simp add: run_def Let_def)
       (simp add: example_env_def inputs_of_def toLowerCase_def toLowerChar_def)
  show ?thesis
    using 1 2 unfolding r
    by (simp add: remote_calls_append failed_append preamble_silent)
qed

subsection \<open>The dispatch on the action\<close>

text \<open>
  C1 has the behaviour of a run depend on the lowercase form of the action only. The
  actions \<open>start\<close> and \<open>START\<close> have the same lowercase form and both pass the check
  of line 44, but line 70 compares the action itself: with \<open>start\<close> the run posts the
  start message and sets the output \<open>thread-id\<close>; with \<open>START\<close>, in the same
  environment, it falls through to the upload branch, posts the pointer message with an
  empty thread identifier, uploads the three artifacts and sets no output.
\<close>

theorem dispatch_compares_the_raw_action:
  "toLowerCase ''START'' = toLowerCase ''start''
   \<and> remote_calls (run (example_env [(''action'', ''start''), (''channel'', ''ci''),
         (''author'', ''alice''), (''message-text'', ''Deploy'')]))
       = [ConversationsList,
          ChatPostMessage (start_message ''C1'' ''Deploy''
            ''*Run URL:* <https://github.com/o/r/actions/runs/7|Click!>'' ''alice'')]
   \<and> outputs (run (example_env [(''action'', ''start''), (''channel'', ''ci''),
         (''author'', ''alice''), (''message-text'', ''Deploy'')]))
       = [(''thread-id'', Some ''169000.1'')]
   \<and> remote_calls (run (example_env [(''action'', ''START''), (''channel'', ''ci''),
         (''author'', ''alice''), (''message-text'', ''Deploy'')]))
       = [ConversationsList,
          ChatPostMessage (pointer_message ''C1'' [] ''alice''),
          FilesUpload (upload_of ''cypress/screenshots'' [] ''C1'' ''a.png''),
          FilesUpload (upload_of ''cypress/screenshots'' [] ''C1'' ''spec/b.png''),
          FilesUpload (upload_of ''cypress/videos'' [] ''C1'' ''spec.mp4'')]
   \<and> outputs (run (example_env [(''action'', ''START''), (''channel'', ''ci''),
         (''author'', ''alice''), (''message-text'', ''Deploy'')])) = []"
  by (simp add: run_def Let_def preamble_def start_mode_def upload_mode_def
        upload_screenshots_def upload_videos_def upload_all_def Promise_all_def
        getChannelId_def run_url_def env_or_empty_def
        example_env_def inputs_of_def toLowerCase_def toLowerChar_def or_else_def
        example_walk_def example_slack_def example_listing_def)

end
